theory Spec2Isabelle
  imports Main "HOL-Library.Sublist" "HOL-Library.Char_ord" "HOL-Library.List_Lexorder"
begin

section \<open>Python values, exceptions and strings\<close>

text \<open>
  Strings are \<open>char list\<close>: byte strings in \<open>management.py\<close>, and in \<open>web.py\<close>
  text (form fields, session values) over the code points a \<open>char\<close> can hold, those
  below 256. A decoded JSON body is a Python value: \<open>JNull\<close> is Python's \<open>None\<close>,
  \<open>JObj\<close> a \<open>dict\<close> (as an association list), \<open>JArr\<close> a \<open>list\<close>.
\<close>

datatype json = JNull | JBool bool | JNum int | JStr string
  | JArr "json list" | JObj "(string \<times> json) list"

text \<open>
  The exceptions that the broker client raises or passes on and that a view of
  \<open>web.py\<close> catches or lets escape. \<open>ConnectionError\<close> is the one of \<open>requests\<close>,
  raised by \<open>session.send\<close> when the broker cannot be reached. The messages of
  \<open>TypeError\<close>, \<open>ValueError\<close> and \<open>ConnectionError\<close> are not modelled.
\<close>

datatype exn =
    PulseManagementException string
  | ConnectionError
  | KeyError string
  | TypeError
  | ValueError
  | AttributeError string
  | MultipleResultsFound

text \<open>
  \<open>except PulseManagementException as e\<close>: the message when the exception is of that
  class, \<open>None\<close> when the clause does not catch it.
\<close>

fun except_PulseManagementException :: "exn \<Rightarrow> string option" where
  "except_PulseManagementException (PulseManagementException m) = Some m"
| "except_PulseManagementException e = None"

text \<open>\<open>str.split(sep)\<close> for a one-character separator: never an empty result.\<close>

fun split_on :: "char \<Rightarrow> string \<Rightarrow> string list" where
  "split_on sep [] = [[]]"
| "split_on sep (c # cs) =
     (if c = sep then [] # split_on sep cs
      else (case split_on sep cs of p # ps \<Rightarrow> (c # p) # ps | [] \<Rightarrow> [[c]]))"

text \<open>\<open>sep.join(xs)\<close>.\<close>

fun join :: "string \<Rightarrow> string list \<Rightarrow> string" where
  "join sep [] = []"
| "join sep [x] = x"
| "join sep (x # y # ys) = x @ sep @ join sep (y # ys)"

text \<open>Decimal and hexadecimal digits, for \<open>'{}'.format(port)\<close> and \<open>'%{:02X}'\<close>.\<close>

definition hex_digit :: "nat \<Rightarrow> char" where
  "hex_digit n = ''0123456789ABCDEF'' ! n"

fun digits10 :: "nat \<Rightarrow> string" where
  "digits10 n =
     (if n < 10 then [hex_digit n] else digits10 (n div 10) @ [hex_digit (n mod 10)])"

subsection \<open>\<open>urllib.quote\<close>\<close>

text \<open>
  \<open>from urllib import quote\<close> is the Python 2 standard library's function: every
  character outside \<open>always_safe\<close> and the caller's \<open>safe\<close> string becomes
  \<open>%XX\<close>, its byte value as two upper-case hexadecimal digits. The source always
  calls it with \<open>safe = ''\<close>.
\<close>

definition always_safe :: string where
  "always_safe = ''ABCDEFGHIJKLMNOPQRSTUVWXYZabcdefghijklmnopqrstuvwxyz0123456789_.-''"

definition quoter :: "string \<Rightarrow> char \<Rightarrow> string" where
  "quoter safe c =
     (if c \<in> set (always_safe @ safe) then [c]
      else [CHR ''%'', hex_digit (of_char c div 16), hex_digit (of_char c mod 16)])"

definition quote :: "string \<Rightarrow> string \<Rightarrow> string" where
  "quote s safe = concat (map (quoter safe) s)"



section \<open>The broker management client (\<open>management.py\<close>)\<close>

text \<open>
  \<open>DEFAULT_RABBIT_*\<close> and the fields \<open>__init__\<close> stores.
\<close>

record PulseManagementAPI =
  host :: string
  management_port :: nat
  vhost :: string
  management_user :: string
  management_password :: string

definition DEFAULT_API :: PulseManagementAPI where
  "DEFAULT_API = \<lparr>host = ''localhost'', management_port = 15672, vhost = ''/'',
     management_user = ''guest'', management_password = ''guest''\<rparr>"

text \<open>
  What \<open>requests\<close> prepares and sends, and what comes back (\<open>ok\<close> is
  \<open>response.ok\<close>, \<open>content\<close> the body). The network is outside the source: it
  is the parameter \<open>send\<close> of every call, which answers (\<open>Inr\<close>) or raises
  (\<open>Inl\<close>), as \<open>session.send\<close> does. So are the JSON codec and Python's
  \<open>str()\<close> of a value, the fields of \<open>pylib\<close>; \<open>json_loads\<close> gives
  \<open>None\<close> where \<open>response.json()\<close> raises \<open>ValueError\<close>.
\<close>

record http_request =
  req_method :: string
  req_url :: string
  req_auth :: "string \<times> string"
  req_data :: string
  req_headers :: "(string \<times> string) list"

record http_response =
  ok :: bool
  content :: string

record pylib =
  json_dumps :: "json \<Rightarrow> string"
  json_loads :: "string \<Rightarrow> json option"
  py_str :: "json \<Rightarrow> string"

text \<open>\<open>'http://{}:{}/api/{}'.format(self.host, self.management_port, path)\<close>\<close>

definition api_url :: "PulseManagementAPI \<Rightarrow> string \<Rightarrow> string" where
  "api_url api path =
     ''http://'' @ host api @ '':'' @ digits10 (management_port api) @ ''/api/'' @ path"

text \<open>
  \<open>_api_request\<close>. The result is the request that was sent, together with what the
  method returns (\<open>Inr\<close>, with \<open>JNull\<close> for \<open>None\<close>) or raises (\<open>Inl\<close>): the
  \<open>PulseManagementException\<close> of the file's only \<open>raise\<close>, or whatever
  \<open>session.send\<close> raised, which nothing here catches. The methods below build a
  path and call it; \<open>delete_all_queues\<close> and \<open>queue_owner\<close>, which only combine
  them, are left out.
\<close>

definition sq :: string where
  "sq = [CHR 0x27]"

definition api_error_message :: "pylib \<Rightarrow> string \<Rightarrow> string \<Rightarrow> json \<Rightarrow> string \<Rightarrow> string" where
  "api_error_message lib method path data received =
     ''Error when calling '' @ sq @ method @ '' '' @ path @ sq
       @ '' with data='' @ py_str lib data @ ''. Received : '' @ received"

definition api_request ::
  "PulseManagementAPI \<Rightarrow> (http_request \<Rightarrow> exn + http_response) \<Rightarrow> pylib \<Rightarrow>
     string \<Rightarrow> string \<Rightarrow> json \<Rightarrow> http_request \<times> (exn + json)" where
  "api_request api send lib path method data =
     (let request = \<lparr>req_method = method, req_url = api_url api path,
                      req_auth = (management_user api, management_password api),
                      req_data = json_dumps lib data,
                      req_headers = [(''Content-type'', ''application/json'')]\<rparr>
      in (request,
          case send request of
            Inl e \<Rightarrow> Inl e
          | Inr response \<Rightarrow>
              if content response = [] then Inr JNull
              else (case json_loads lib (content response) of
                      Some j \<Rightarrow> Inr j
                    | None \<Rightarrow>
                        Inl (PulseManagementException
                               (api_error_message lib method path data (content response))))))"

text \<open>A method that ends without \<open>return\<close> gives \<open>None\<close> whatever the call returned.\<close>

definition discard :: "http_request \<times> (exn + json) \<Rightarrow> http_request \<times> (exn + unit)" where
  "discard r = (fst r, case snd r of Inl e \<Rightarrow> Inl e | Inr _ \<Rightarrow> Inr ())"

subsection \<open>Queues\<close>



definition mgmt_delete_queue ::
  "PulseManagementAPI \<Rightarrow> (http_request \<Rightarrow> exn + http_response) \<Rightarrow> pylib \<Rightarrow>
     string \<Rightarrow> string \<Rightarrow> http_request \<times> (exn + unit)" where
  "mgmt_delete_queue api send lib vh queue =
     discard (api_request api send lib (''queues/'' @ quote vh [] @ ''/'' @ quote queue [])
                ''DELETE'' JNull)"

subsection \<open>Users\<close>

definition mgmt_user ::
  "PulseManagementAPI \<Rightarrow> (http_request \<Rightarrow> exn + http_response) \<Rightarrow> pylib \<Rightarrow>
     string \<Rightarrow> http_request \<times> (exn + json)" where
  "mgmt_user api send lib username =
     api_request api send lib (''users/'' @ quote username []) ''GET'' JNull"


definition mgmt_delete_user ::
  "PulseManagementAPI \<Rightarrow> (http_request \<Rightarrow> exn + http_response) \<Rightarrow> pylib \<Rightarrow>
     string \<Rightarrow> http_request \<times> (exn + unit)" where
  "mgmt_delete_user api send lib username =
     discard (api_request api send lib (''users/'' @ quote username []) ''DELETE'' JNull)"

subsection \<open>Channels\<close>

definition mgmt_channels ::
  "PulseManagementAPI \<Rightarrow> (http_request \<Rightarrow> exn + http_response) \<Rightarrow> pylib \<Rightarrow>
     http_request \<times> (exn + json)" where
  "mgmt_channels api send lib = api_request api send lib ''channels'' ''GET'' JNull"


section \<open>The local store\<close>

text \<open>
  Modelled from the spec: the model classes \<open>User\<close>, \<open>PulseUser\<close> and \<open>Queue\<close>
  and the database session are not among the source files. The tables follow the
  spec's schema \<open>users(email, admin)\<close>, \<open>pulse_users(username, ...)\<close>,
  \<open>pulse_user_owners(pulse_username, user_email)\<close> and
  \<open>queues(name, owner_pulse_username nullable)\<close>; the association rows of a pulse
  user are kept with its row. The store holds what is committed.
\<close>

record user =
  email :: string
  admin :: bool

record pulse_user =
  username :: string
  owner_emails :: "string list"

record queue =
  name :: string
  owner_username :: "string option"

record db =
  users :: "user list"
  pulse_users :: "pulse_user list"
  queues :: "queue list"

text \<open>
  The relationships the views traverse: \<open>pulse_user.owners\<close>, \<open>queue.owner\<close> and
  \<open>user.pulse_users\<close>.
\<close>

definition owners :: "db \<Rightarrow> pulse_user \<Rightarrow> user list" where
  "owners d pu = filter (\<lambda>u. email u \<in> set (owner_emails pu)) (users d)"

definition queue_owner :: "db \<Rightarrow> queue \<Rightarrow> pulse_user option" where
  "queue_owner d q =
     (case owner_username q of
        None \<Rightarrow> None
      | Some n \<Rightarrow> find (\<lambda>pu. username pu = n) (pulse_users d))"

definition user_pulse_users :: "db \<Rightarrow> user \<Rightarrow> pulse_user list" where
  "user_pulse_users d u = filter (\<lambda>pu. email u \<in> set (owner_emails pu)) (pulse_users d)"

section \<open>The web application (\<open>web.py\<close>)\<close>

subsection \<open>Request context, responses and collaborators\<close>

text \<open>
  Flask's \<open>session\<close> (a dict of Python values), \<open>g.user\<close>, the flashed messages
  and the log are global state of a request; with the store they form the \<open>world\<close>
  a view reads and returns updated. \<open>g_user\<close> is what \<open>load_user\<close> has put into
  \<open>g.user\<close> before the view runs: the acting user, or \<open>None\<close>. A view returns a
  response (\<open>Inr\<close>) or lets an exception escape (\<open>Inl\<close>).
\<close>

datatype level = INFO | WARNING | ERROR

record world =
  store :: db
  session :: "string \<rightharpoonup> json"
  g_user :: "user option"
  flashes :: "string list"
  log :: "(level \<times> string) list"

datatype tval = TNone | TStr string | TStrs "string list" | TJson json
  | TUsers "user list" | TQueues "queue list"

datatype response =
    Redirect string
  | Jsonify "(string \<times> json) list"
  | Render string "(string \<times> tval) list"

type_synonym view = "world \<Rightarrow> (exn + response) \<times> world"

text \<open>
  \<open>config\<close>: the settings the views read.
\<close>

record config =
  auth0_domain :: string
  auth0_client_id :: string
  auth0_client_secret :: string
  auth0_callback_url :: string
  reserved_users_message :: string

text \<open>
  What the views call and the source files do not define. \<open>pm_*\<close> are the functions of
  the module \<open>pulse_management\<close>, which return (\<open>Inr\<close>) or raise (\<open>Inl\<close>):
  \<open>PulseManagementException\<close>, the class the views catch, or any other exception. \<open>strong_password\<close>, \<open>change_password\<close> and \<open>new_pulse_user\<close> are
  \<open>PulseUser.strong_password\<close>, \<open>pulse_user.change_password\<close> (the store of this
  model keeps no password, so only its failure shows) and \<open>PulseUser.new_user\<close>;
  \<open>new_user\<close> is \<open>User.new_user\<close>. \<open>cascade\<close> is what deleting a pulse user's row
  does to the queues table under the mapping's cascade rules. \<open>reserved\<close> is
  \<open>config.reserved_users_regex and re.match(config.reserved_users_regex, username)\<close>.
  \<open>requests_post\<close> and \<open>requests_get\<close> are the HTTP calls to the identity
  provider.
\<close>

record ext =
  pm_delete_queue :: "string \<Rightarrow> string \<Rightarrow> exn + unit"
  pm_delete_user :: "string \<Rightarrow> exn + unit"
  pm_user :: "string \<Rightarrow> exn + json"
  pm_queue_bindings :: "string \<Rightarrow> string \<Rightarrow> exn + json"
  strong_password :: "string \<Rightarrow> bool"
  change_password :: "pulse_user \<Rightarrow> string \<Rightarrow> exn + unit"
  new_pulse_user :: "string \<Rightarrow> string \<Rightarrow> user list \<Rightarrow> db \<Rightarrow> exn + db"
  new_user :: "json \<Rightarrow> db \<Rightarrow> exn + user \<times> db"
  cascade :: "pulse_user \<Rightarrow> queue list \<Rightarrow> queue list"
  reserved :: "string \<Rightarrow> bool"
  requests_post :: "string \<Rightarrow> string \<Rightarrow> http_response"
  requests_get :: "string \<Rightarrow> http_response"
  lib :: pylib

subsection \<open>Python operators on decoded values\<close>

text \<open>\<open>d[key]\<close> for a string key.\<close>

fun py_getitem :: "json \<Rightarrow> string \<Rightarrow> exn + json" where
  "py_getitem (JObj kvs) k =
     (case map_of kvs k of Some v \<Rightarrow> Inr v | None \<Rightarrow> Inl (KeyError k))"
| "py_getitem v k = Inl TypeError"


text \<open>\<open>session.get(key)\<close>: \<open>None\<close> for a missing key.\<close>

definition session_get :: "world \<Rightarrow> string \<Rightarrow> json" where
  "session_get w k = (case session w k of None \<Rightarrow> JNull | Some v \<Rightarrow> v)"

text \<open>\<open>User.query.filter(User.email == v).first()\<close> for a Python value \<open>v\<close>.\<close>

definition user_by_email :: "db \<Rightarrow> json \<Rightarrow> user option" where
  "user_by_email d v = find (\<lambda>u. JStr (email u) = v) (users d)"

subsection \<open>Owner lists\<close>

text \<open>
  \<open>owner.strip()\<close> on a form value, which is text: it removes at both ends the
  characters Python counts as whitespace in text. Below 256 these are \<open>0x09\<close> to
  \<open>0x0D\<close>, \<open>0x1C\<close> to \<open>0x1F\<close>, the space, \<open>0x85\<close> and \<open>0xA0\<close>.
\<close>

definition is_space :: "char \<Rightarrow> bool" where
  "is_space c =
     (c \<in> set [CHR 0x09, CHR 0x0A, CHR 0x0B, CHR 0x0C, CHR 0x0D,
                CHR 0x1C, CHR 0x1D, CHR 0x1E, CHR 0x1F, CHR 0x20, CHR 0x85, CHR 0xA0])"

definition strip :: "string \<Rightarrow> string" where
  "strip s = rev (dropWhile is_space (rev (dropWhile is_space s)))"

text \<open>\<open>_clean_owners_str\<close>: \<open>{owner.strip() for owner in owners_str.split(",") if owner}\<close>\<close>

definition clean_owners_str :: "string \<Rightarrow> string set" where
  "clean_owners_str owners_str =
     set (map strip (filter (\<lambda>owner. owner \<noteq> []) (split_on CHR '','' owners_str)))"

subsection \<open>Decorators and rendering views\<close>

text \<open>\<open>requires_login\<close>: redirect to \<open>/\<close> unless the session holds an email.\<close>

definition requires_login :: "view \<Rightarrow> view" where
  "requires_login f w =
     (if session_get w ''email'' = JNull then (Inr (Redirect ''/''), w) else f w)"

definition no_attribute :: "string \<Rightarrow> exn" where
  "no_attribute a = AttributeError (sq @ ''NoneType'' @ sq @ '' object has no attribute '' @ sq @ a @ sq)"

fun opt_str :: "string option \<Rightarrow> tval" where
  "opt_str None = TNone"
| "opt_str (Some s) = TStr s"

fun opt_strs :: "string list option \<Rightarrow> tval" where
  "opt_strs None = TNone"
| "opt_strs (Some xs) = TStrs xs"


text \<open>\<open>profile(error=None, messages=None)\<close>\<close>

definition profile :: "string option \<Rightarrow> string list option \<Rightarrow> view" where
  "profile error messages =
     requires_login (\<lambda>w.
       (case g_user w of
          None \<Rightarrow> (Inl (no_attribute ''admin''), w)
        | Some u \<Rightarrow>
            (Inr (Render ''profile.html''
                    [(''users'', TUsers (if admin u then users (store w) else [])),
                     (''no_owner_queues'',
                        TQueues (if admin u
                                 then filter (\<lambda>q. owner_username q = None) (queues (store w))
                                 else [])),
                     (''error'', opt_str error),
                     (''messages'', opt_strs messages)]), w)))"

subsection \<open>API\<close>

definition jsonify_ok :: "bool \<Rightarrow> response" where
  "jsonify_ok b = Jsonify [(''ok'', JBool b)]"

text \<open>\<open>DELETE /queue/<path:queue_name>\<close>\<close>

definition delete_queue :: "ext \<Rightarrow> string \<Rightarrow> view" where
  "delete_queue x queue_name =
     requires_login (\<lambda>w.
       (case find (\<lambda>q. name q = queue_name) (queues (store w)) of
          None \<Rightarrow> (Inr (jsonify_ok False), w)
        | Some queue \<Rightarrow>
            (case g_user w of
               None \<Rightarrow> (Inl (no_attribute ''admin''), w)
             | Some u \<Rightarrow>
                 if admin u \<or>
                    (case queue_owner (store w) queue of
                       None \<Rightarrow> False
                     | Some pu \<Rightarrow> u \<in> set (owners (store w) pu))
                 then
                   (case pm_delete_queue x ''/'' (name queue) of
                      Inl err \<Rightarrow>
                        (case except_PulseManagementException err of
                           Some e \<Rightarrow>
                             (Inr (jsonify_ok False),
                              w\<lparr>log := log w @
                                  [(WARNING, ''Couldn'' @ sq @ ''t delete the queue '' @ sq
                                      @ queue_name @ sq @ '' on rabbitmq: '' @ e)]\<rparr>)
                         | None \<Rightarrow> (Inl err, w))
                    | Inr _ \<Rightarrow>
                        (Inr (jsonify_ok True),
                         w\<lparr>store := (store w)\<lparr>queues := remove1 queue (queues (store w))\<rparr>\<rparr>))
                 else (Inr (jsonify_ok False), w))))"


subsection \<open>Read-only API\<close>

text \<open>\<open>GET /queue/<path:queue_name>/bindings\<close>, a view without decorator.\<close>

definition bindings_listing :: "ext \<Rightarrow> string \<Rightarrow> view" where
  "bindings_listing x queue_name w =
     (case find (\<lambda>q. name q = queue_name) (queues (store w)) of
        None \<Rightarrow>
          (Inr (Jsonify [(''queue_name'', JStr queue_name), (''bindings'', JArr [])]), w)
      | Some queue \<Rightarrow>
          (case pm_queue_bindings x ''/'' (name queue) of
             Inl e \<Rightarrow> (Inl e, w)
           | Inr bindings \<Rightarrow>
               (Inr (Jsonify [(''queue_name'', JStr queue_name), (''bindings'', bindings)]), w)))"

subsection \<open>Authentication\<close>

text \<open>
  \<open>/auth/callback\<close>. \<open>code\<close> is \<open>request.args.get('code')\<close>. The token
  response's status is never read; its body is decoded and \<open>access_token\<close> taken
  from it. Only the profile response is tested with \<open>resp.ok\<close>.
\<close>

definition token_payload :: "config \<Rightarrow> string option \<Rightarrow> json" where
  "token_payload cfg code =
     JObj [(''client_id'', JStr (auth0_client_id cfg)),
           (''client_secret'', JStr (auth0_client_secret cfg)),
           (''redirect_uri'', JStr (auth0_callback_url cfg)),
           (''code'', (case code of None \<Rightarrow> JNull | Some c \<Rightarrow> JStr c)),
           (''grant_type'', JStr ''authorization_code'')]"

definition auth0_error_msg :: "config \<Rightarrow> string" where
  "auth0_error_msg cfg = ''Error verifying with Auth0 ('' @ auth0_domain cfg @ '')''"

text \<open>The end of the successful branch: \<open>/\<close> for a user with pulse users, else \<open>/register\<close>.\<close>

definition route_user :: "user \<Rightarrow> view" where
  "route_user u w =
     (if user_pulse_users (store w) u \<noteq> [] then (Inr (Redirect ''/''), w)
      else (Inr (Redirect ''/register''), w))"

definition callback_handling :: "config \<Rightarrow> ext \<Rightarrow> string option \<Rightarrow> view" where
  "callback_handling cfg x code w =
     (let token_url = ''https://'' @ auth0_domain cfg @ ''/oauth/token'';
          token_resp = requests_post x token_url (json_dumps (lib x) (token_payload cfg code))
      in case json_loads (lib x) (content token_resp) of
           None \<Rightarrow> (Inl ValueError, w)
         | Some token_info \<Rightarrow>
             (case py_getitem token_info ''access_token'' of
                Inl e \<Rightarrow> (Inl e, w)
              | Inr access_token \<Rightarrow>
                  (let user_url = ''https://'' @ auth0_domain cfg @ ''/userinfo?access_token=''
                                    @ py_str (lib x) access_token;
                       resp = requests_get x user_url
                   in if ok resp then
                        (case json_loads (lib x) (content resp) of
                           None \<Rightarrow> (Inl ValueError, w)
                         | Some user_info \<Rightarrow>
                             (case py_getitem user_info ''email'' of
                                Inl e \<Rightarrow> (Inl e, w)
                              | Inr em \<Rightarrow>
                                  (let w1 = w\<lparr>session := (session w)
                                                (''email'' \<mapsto> em, ''logged_in'' \<mapsto> JBool True)\<rparr>
                                   in case user_by_email (store w1) em of
                                        Some u \<Rightarrow> route_user u w1
                                      | None \<Rightarrow>
                                          (case new_user x em (store w1) of
                                             Inl e \<Rightarrow> (Inl e, w1)
                                           | Inr (u, d) \<Rightarrow> route_user u (w1\<lparr>store := d\<rparr>)))))
                      else
                        (Inr (Redirect ''/''),
                         w\<lparr>log := log w @ [(ERROR, auth0_error_msg cfg), (ERROR, content resp)],
                           flashes := flashes w @ [auth0_error_msg cfg]\<rparr>))))"

text \<open>\<open>POST /auth/logout\<close>\<close>

definition logout_handler :: view where
  "logout_handler w =
     (Inr (Jsonify [(''ok'', JBool True), (''redirect'', JStr ''/'')]),
      w\<lparr>session := (session w)(''email'' \<mapsto> JNull, ''logged_in'' \<mapsto> JBool False)\<rparr>)"

subsection \<open>Owner and password update\<close>

text \<open>The form fields \<open>update_info\<close> reads from \<open>request.form\<close>.\<close>

record update_form =
  f_pulse_user :: string
  f_new_password :: string
  f_new_password_verification :: string
  f_owners_list :: string

text \<open>
  The last step of \<open>update_info\<close>, from \<open># Update the owners list, if needed.\<close> to
  the final \<open>return\<close>: \<open>messages\<close> is what the password step collected.
\<close>

definition update_owners :: "pulse_user \<Rightarrow> string set \<Rightarrow> string list \<Rightarrow> view" where
  "update_owners pulse_user new_owners messages w =
     (let old_owners = email ` set (owners (store w) pulse_user)
      in if new_owners \<noteq> {} \<and> new_owners \<noteq> old_owners then
           (let new_owner_users = filter (\<lambda>u. email u \<in> new_owners) (users (store w))
            in if new_owner_users \<noteq> [] then
                 (let w1 = w\<lparr>store := (store w)\<lparr>pulse_users :=
                              map (\<lambda>p. if username p = username pulse_user
                                        then p\<lparr>owner_emails := map email new_owner_users\<rparr>
                                        else p)
                                  (pulse_users (store w))\<rparr>\<rparr>;
                      updated_owners = email ` set new_owner_users;
                      invalid_owners = sorted_list_of_set (new_owners - updated_owners)
                  in if invalid_owners \<noteq> [] then
                       profile (Some (''Some user emails not found: '' @ join '', '' invalid_owners))
                         (Some messages) w1
                     else profile None (Some [''Email list updated.'']) w1)
               else
                 profile (Some (''Invalid owners: '' @
                                ''Must be a comma-delimited list of existing user emails.''))
                   (Some messages) w)
         else if messages = [] then profile None (Some [''No info updated.'']) w
         else profile None (Some messages) w)"

text \<open>\<open>POST /update_info\<close>\<close>

definition update_info :: "ext \<Rightarrow> update_form \<Rightarrow> view" where
  "update_info x form =
     requires_login (\<lambda>w.
       (let pulse_username = f_pulse_user form;
            new_password = f_new_password form;
            password_verification = f_new_password_verification form;
            new_owners = clean_owners_str (f_owners_list form)
        in case filter (\<lambda>pu. username pu = pulse_username) (pulse_users (store w)) of
             [] \<Rightarrow> profile None (Some [''Pulse user '' @ pulse_username @ '' not found.'']) w
           | [pulse_user] \<Rightarrow>
               (case g_user w of
                  None \<Rightarrow> (Inl (no_attribute ''email''), w)
                | Some u \<Rightarrow>
                    if u \<notin> set (owners (store w) pulse_user) then
                      profile None (Some [''Invalid user: '' @ email u @ '' is not an owner.'']) w
                    else if new_password \<noteq> [] then
                      (if new_password \<noteq> password_verification then
                         profile (Some (''Password verification doesn'' @ sq @ ''t match the ''
                                        @ ''password.'')) None w
                       else if \<not> strong_password x new_password then
                         profile (Some (''Your password must contain a mix of ''
                                        @ ''letters and numerical characters and be at ''
                                        @ ''least 6 characters long.'')) None w
                       else
                         (case change_password x pulse_user new_password of
                            Inl e \<Rightarrow> (Inl e, w)
                          | Inr _ \<Rightarrow>
                              update_owners pulse_user new_owners
                                [''Password updated for user '' @ pulse_username @ ''.''] w))
                    else update_owners pulse_user new_owners [] w)
           | _ \<Rightarrow> (Inl MultipleResultsFound, w)))"

subsection \<open>Credential creation\<close>










subsection \<open>The views' \<open>pulse_management\<close> from the client of \<open>management.py\<close>\<close>

text \<open>
  The calls of the views that the client class has, made through it: deleting a queue,
  deleting a user and looking a user up.
\<close>

definition with_management ::
  "PulseManagementAPI \<Rightarrow> (http_request \<Rightarrow> exn + http_response) \<Rightarrow> ext \<Rightarrow> ext" where
  "with_management api send x =
     x\<lparr>pm_delete_queue := \<lambda>vh queue. snd (mgmt_delete_queue api send (lib x) vh queue),
       pm_delete_user := \<lambda>uname. snd (mgmt_delete_user api send (lib x) uname),
       pm_user := \<lambda>uname. snd (mgmt_user api send (lib x) uname)\<rparr>"

section \<open>Example inputs\<close>

text \<open>
  A small store and concrete collaborators, on which the theorems below are
  instantiated: \<open>alice\<close> owns the pulse user \<open>pu1\<close>, which owns the queue
  \<open>q/1\<close>; \<open>carol\<close> is an admin; with \<open>demo_ext False\<close> every broker call
  raises \<open>PulseManagementException\<close>; the identity provider answers every request
  with a non-success status. \<open>demo_send\<close> is a broker that answers a \<open>DELETE\<close> with
  an empty body and anything else with a page that is not JSON, \<open>empty_send\<close> one
  that answers everything with an empty body, \<open>unreachable_send\<close> one that cannot be
  reached.
\<close>

definition alice :: user where
  "alice = \<lparr>email = ''alice@example.com'', admin = False\<rparr>"

definition bob :: user where
  "bob = \<lparr>email = ''bob@example.com'', admin = False\<rparr>"

definition carol :: user where
  "carol = \<lparr>email = ''carol@example.com'', admin = True\<rparr>"

definition pu1 :: pulse_user where
  "pu1 = \<lparr>username = ''pu1'', owner_emails = [''alice@example.com'']\<rparr>"

definition q1 :: queue where
  "q1 = \<lparr>name = ''q/1'', owner_username = Some ''pu1''\<rparr>"

definition q2 :: queue where
  "q2 = \<lparr>name = ''orphan'', owner_username = None\<rparr>"

definition demo_db :: db where
  "demo_db = \<lparr>users = [alice, bob, carol], pulse_users = [pu1], queues = [q1, q2]\<rparr>"

definition demo_world :: "user \<Rightarrow> world" where
  "demo_world u =
     \<lparr>store = demo_db,
      session = [''email'' \<mapsto> JStr (email u), ''logged_in'' \<mapsto> JBool True],
      g_user = Some u, flashes = [], log = []\<rparr>"

definition anonymous_world :: world where
  "anonymous_world = \<lparr>store = demo_db, session = Map.empty, g_user = None, flashes = [], log = []\<rparr>"

definition demo_lib :: pylib where
  "demo_lib =
     \<lparr>json_dumps = (\<lambda>v. ''{}''),
      json_loads = (\<lambda>s. if s = ''{\"error\": \"access_denied\"}''
                        then Some (JObj [(''error'', JStr ''access_denied'')])
                        else if s = ''{\"access_token\": \"t0\"}''
                        then Some (JObj [(''access_token'', JStr ''t0'')])
                        else None),
      py_str = (\<lambda>v. case v of JStr s \<Rightarrow> s | _ \<Rightarrow> ''None'')\<rparr>"

definition demo_ext :: "bool \<Rightarrow> ext" where
  "demo_ext up =
     \<lparr>pm_delete_queue = (\<lambda>vh q. if up then Inr () else Inl (PulseManagementException ''Could not connect'')),
      pm_delete_user = (\<lambda>u. if up then Inr () else Inl (PulseManagementException ''Could not connect'')),
      pm_user = (\<lambda>u. if up then Inr (JObj [(''error'', JStr ''Object Not Found'')])
                      else Inl (PulseManagementException ''Could not connect'')),
      pm_queue_bindings = (\<lambda>vh q. if up then Inr (JArr []) else Inl (PulseManagementException ''Could not connect'')),
      strong_password = (\<lambda>p. 6 \<le> length p),
      change_password = (\<lambda>pu p. if up then Inr () else Inl (PulseManagementException ''Could not connect'')),
      new_pulse_user = (\<lambda>u p os d.
         Inr (d\<lparr>pulse_users := pulse_users d @ [\<lparr>username = u, owner_emails = map email os\<rparr>]\<rparr>)),
      new_user = (\<lambda>v d. case v of
                     JStr s \<Rightarrow> Inr (\<lparr>email = s, admin = False\<rparr>,
                                    d\<lparr>users := users d @ [\<lparr>email = s, admin = False\<rparr>]\<rparr>)
                   | _ \<Rightarrow> Inl TypeError),
      cascade = (\<lambda>pu qs. filter (\<lambda>q. owner_username q \<noteq> Some (username pu)) qs),
      reserved = (\<lambda>u. False),
      requests_post = (\<lambda>url data. \<lparr>ok = False, content = ''{\"error\": \"access_denied\"}''\<rparr>),
      requests_get = (\<lambda>url. \<lparr>ok = False, content = ''Unauthorized''\<rparr>),
      lib = demo_lib\<rparr>"

definition demo_config :: config where
  "demo_config =
     \<lparr>auth0_domain = ''auth.example.com'', auth0_client_id = ''id'',
      auth0_client_secret = ''secret'', auth0_callback_url = ''https://pg.example.com/auth/callback'',
      reserved_users_message = ''Ask the administrators.''\<rparr>"

definition demo_form :: "string \<Rightarrow> string \<Rightarrow> update_form" where
  "demo_form target owners_str =
     \<lparr>f_pulse_user = target, f_new_password = [], f_new_password_verification = [],
      f_owners_list = owners_str\<rparr>"

definition demo_send :: "http_request \<Rightarrow> exn + http_response" where
  "demo_send r =
     Inr \<lparr>ok = True, content = (if req_method r = ''DELETE'' then [] else ''Not found'')\<rparr>"


definition unreachable_send :: "http_request \<Rightarrow> exn + http_response" where
  "unreachable_send r = Inl ConnectionError"



section \<open>Properties\<close>

subsection \<open>Helper lemmas\<close>

lemma requires_login_logged_in:
  "session_get w ''email'' \<noteq> JNull \<Longrightarrow> requires_login f w = f w"
  by (simp add: requires_login_def)

lemma find_name: "find (\<lambda>q. name q = n) qs = Some q \<Longrightarrow> name q = n"
  by (auto simp: find_Some_iff)


lemma demo_logged_in: "session_get (demo_world u) ''email'' \<noteq> JNull"
  by (simp add: session_get_def demo_world_def)

lemma demo_g_user: "g_user (demo_world u) = Some u"
  by (simp add: demo_world_def)

lemma demo_store: "store (demo_world u) = demo_db"
  by (simp add: demo_world_def)

subsection \<open>Deletion: broker first, store second\<close>

lemma except_None_not_caught:
  "except_PulseManagementException e = None \<Longrightarrow> e \<noteq> PulseManagementException m"
  by (cases e) simp_all



lemma demo_find_q1: "find (\<lambda>q. name q = ''q/1'') (queues (store (demo_world u))) = Some q1"
  by (simp add: demo_store demo_db_def q1_def q2_def)

lemma demo_find_q2: "find (\<lambda>q. name q = ''orphan'') (queues (store (demo_world u))) = Some q2"
  by (simp add: demo_store demo_db_def q1_def q2_def)


lemma demo_queue_owner_q1: "queue_owner (store (demo_world u)) q1 = Some pu1"
  by (simp add: demo_store queue_owner_def demo_db_def q1_def pu1_def)

lemma demo_owners_pu1: "owners (store (demo_world u)) pu1 = [alice]"
  unfolding demo_store
  by (simp add: owners_def demo_db_def pu1_def alice_def bob_def carol_def)




subsection \<open>Who may delete a queue\<close>

text \<open>
  C4. For a logged-in request whose queue exists: queue deletion is permitted iff the
  acting user is an admin, or the queue has an owner and the acting user is among
  that pulse user's owners. The answer is \<open>ok=true\<close> exactly when the request is
  permitted and the broker call returned, and then, for an owner as for an admin, the
  queue's row is gone from the store and nothing else has changed. A denied request
  is answered \<open>ok=false\<close> and changes nothing. In particular a queue with no owner
  on record is denied to every non-admin, and an admin's deletion removes any queue.
\<close>

theorem delete_queue_permitted_iff:
  assumes "session_get w ''email'' \<noteq> JNull" and "g_user w = Some u"
    and "find (\<lambda>q. name q = qn) (queues (store w)) = Some q"
  shows "((fst (delete_queue x qn w) = Inr (jsonify_ok True)) =
            ((admin u \<or> (\<exists>pu. queue_owner (store w) q = Some pu \<and> u \<in> set (owners (store w) pu)))
             \<and> pm_delete_queue x ''/'' qn = Inr ()))
       \<and> ((admin u \<or> (\<exists>pu. queue_owner (store w) q = Some pu \<and> u \<in> set (owners (store w) pu)))
           \<and> pm_delete_queue x ''/'' qn = Inr () \<longrightarrow>
            delete_queue x qn w =
              (Inr (jsonify_ok True), w\<lparr>store := (store w)\<lparr>queues := remove1 q (queues (store w))\<rparr>\<rparr>))
       \<and> (\<not> (admin u \<or> (\<exists>pu. queue_owner (store w) q = Some pu \<and> u \<in> set (owners (store w) pu)))
            \<longrightarrow> delete_queue x qn w = (Inr (jsonify_ok False), w))
       \<and> (owner_username q = None \<and> \<not> admin u \<longrightarrow> delete_queue x qn w = (Inr (jsonify_ok False), w))
       \<and> (admin u \<and> pm_delete_queue x ''/'' qn = Inr () \<longrightarrow>
            delete_queue x qn w =
              (Inr (jsonify_ok True), w\<lparr>store := (store w)\<lparr>queues := remove1 q (queues (store w))\<rparr>\<rparr>))"
proof -
  have n: "name q = qn" using assms(3) by (rule find_name)
  let ?P = "admin u \<or> (\<exists>pu. queue_owner (store w) q = Some pu \<and> u \<in> set (owners (store w) pu))"
  have permitted: "delete_queue x qn w =
      (Inr (jsonify_ok True), w\<lparr>store := (store w)\<lparr>queues := remove1 q (queues (store w))\<rparr>\<rparr>)"
    if "?P" and "pm_delete_queue x ''/'' qn = Inr ()"
    using assms n that
    by (auto simp: delete_queue_def requires_login_logged_in)
  have denied: "delete_queue x qn w = (Inr (jsonify_ok False), w)" if "\<not> ?P"
    using assms n that
    by (auto simp: delete_queue_def requires_login_logged_in split: option.splits)
  have no_owner: "\<not> ?P" if "owner_username q = None \<and> \<not> admin u"
    using that by (simp add: queue_owner_def)
  have raised: "fst (delete_queue x qn w) \<noteq> Inr (jsonify_ok True)"
    if "?P" and "pm_delete_queue x ''/'' qn = Inl e" for e
    using assms n that
    by (auto simp: delete_queue_def requires_login_logged_in jsonify_ok_def
        split: option.splits)
  have iff: "(fst (delete_queue x qn w) = Inr (jsonify_ok True)) =
      (?P \<and> pm_delete_queue x ''/'' qn = Inr ())"
  proof (cases "?P")
    case False
    then show ?thesis using denied by (simp add: jsonify_ok_def)
  next
    case True
    show ?thesis
    proof (cases "pm_delete_queue x ''/'' qn")
      case (Inl e)
      then show ?thesis using raised [OF True Inl] by simp
    next
      case (Inr v)
      then show ?thesis using permitted [OF True] True by simp
    qed
  qed
  show ?thesis
    using iff permitted denied no_owner by blast
qed

text \<open>
  The instances: the owner \<open>alice\<close> deletes \<open>q/1\<close> and the row is gone, \<open>bob\<close> is
  denied, the ownerless queue is denied to \<open>alice\<close> and deleted by the admin
  \<open>carol\<close>.
\<close>

theorem delete_queue_permitted_iff_witness:
  "\<not> admin alice \<and> alice \<in> set (owners (store (demo_world alice)) pu1)
   \<and> delete_queue (demo_ext True) ''q/1'' (demo_world alice) =
       (Inr (jsonify_ok True), (demo_world alice)\<lparr>store := demo_db\<lparr>queues := [q2]\<rparr>\<rparr>)
   \<and> delete_queue (demo_ext True) ''q/1'' (demo_world bob) = (Inr (jsonify_ok False), demo_world bob)
   \<and> delete_queue (demo_ext True) ''orphan'' (demo_world alice) = (Inr (jsonify_ok False), demo_world alice)
   \<and> delete_queue (demo_ext True) ''orphan'' (demo_world carol) =
       (Inr (jsonify_ok True), (demo_world carol)\<lparr>store := demo_db\<lparr>queues := [q1]\<rparr>\<rparr>)"
proof -
  have qo2: "owner_username q2 = None" by (simp add: q2_def)
  have up: "\<And>v n. pm_delete_queue (demo_ext True) v n = Inr ()" by (simp add: demo_ext_def)
  have adm: "\<not> admin alice" "\<not> admin bob" "admin carol" "bob \<noteq> alice"
    by (simp_all add: alice_def bob_def carol_def)
  have r1: "remove1 q1 (queues demo_db) = [q2]" "remove1 q2 (queues demo_db) = [q1]"
    by (simp_all add: demo_db_def q1_def q2_def)
  have qo: "queue_owner demo_db q1 = Some pu1" using demo_queue_owner_q1 [of alice] by (simp add: demo_store)
  have ow: "owners demo_db pu1 = [alice]" using demo_owners_pu1 [of alice] by (simp add: demo_store)
  note a = delete_queue_permitted_iff
      [where u = alice and qn = "''q/1''" and x = "demo_ext True",
        OF demo_logged_in demo_g_user demo_find_q1]
  note b = delete_queue_permitted_iff
      [where u = bob and qn = "''q/1''" and x = "demo_ext True",
        OF demo_logged_in demo_g_user demo_find_q1]
  note c = delete_queue_permitted_iff
      [where u = alice and qn = "''orphan''" and x = "demo_ext True",
        OF demo_logged_in demo_g_user demo_find_q2]
  note d = delete_queue_permitted_iff
      [where u = carol and qn = "''orphan''" and x = "demo_ext True",
        OF demo_logged_in demo_g_user demo_find_q2]
  have 1: "delete_queue (demo_ext True) ''q/1'' (demo_world alice) =
       (Inr (jsonify_ok True), (demo_world alice)\<lparr>store := demo_db\<lparr>queues := [q2]\<rparr>\<rparr>)"
    using a up adm by (simp add: demo_store qo ow r1)
  have 2: "delete_queue (demo_ext True) ''q/1'' (demo_world bob) = (Inr (jsonify_ok False), demo_world bob)"
    using b adm by (simp add: demo_store qo ow)
  have 3: "delete_queue (demo_ext True) ''orphan'' (demo_world alice) =
      (Inr (jsonify_ok False), demo_world alice)"
    using c adm qo2 by simp
  have 4: "delete_queue (demo_ext True) ''orphan'' (demo_world carol) =
       (Inr (jsonify_ok True), (demo_world carol)\<lparr>store := demo_db\<lparr>queues := [q1]\<rparr>\<rparr>)"
    using d up adm by (simp add: demo_store r1)
  show ?thesis using 1 2 3 4 adm by (simp add: demo_owners_pu1)
qed

lemma profile_logged_in:
  "session_get w ''email'' \<noteq> JNull \<Longrightarrow> g_user w = Some u \<Longrightarrow>
   profile err msgs w =
     (Inr (Render ''profile.html''
             [(''users'', TUsers (if admin u then users (store w) else [])),
              (''no_owner_queues'',
                 TQueues (if admin u
                          then filter (\<lambda>q. owner_username q = None) (queues (store w))
                          else [])),
              (''error'', opt_str err),
              (''messages'', opt_strs msgs)]), w)"
  by (simp add: profile_def requires_login_logged_in)

subsection \<open>The update is for owners only\<close>

text \<open>
  C5. The owner/password update answers every acting user who is not among the target
  pulse user's owners with the profile page carrying the message that the user is not
  an owner, and changes nothing; no exception escapes. The admin flag plays no part:
  the statement holds for an admin as for anyone else.
\<close>

theorem update_info_owner_only:
  assumes "session_get w ''email'' \<noteq> JNull" and "g_user w = Some u"
    and "filter (\<lambda>pu. username pu = f_pulse_user form) (pulse_users (store w)) = [pu]"
    and "u \<notin> set (owners (store w) pu)"
  shows "update_info x form w =
           (Inr (Render ''profile.html''
                   [(''users'', TUsers (if admin u then users (store w) else [])),
                    (''no_owner_queues'',
                       TQueues (if admin u
                                then filter (\<lambda>q. owner_username q = None) (queues (store w))
                                else [])),
                    (''error'', TNone),
                    (''messages'', TStrs [''Invalid user: '' @ email u @ '' is not an owner.''])]),
            w)"
  using assms
  by (simp add: update_info_def requires_login_logged_in Let_def profile_logged_in)

lemma demo_filter_pu1:
  "filter (\<lambda>pu. username pu = f_pulse_user (demo_form ''pu1'' s)) (pulse_users (store (demo_world u))) = [pu1]"
  by (simp add: demo_form_def demo_store demo_db_def pu1_def)

text \<open>The instance: the admin \<open>carol\<close>, who does not own \<open>pu1\<close>, is rejected.\<close>

theorem update_info_owner_only_witness:
  "admin carol \<and> carol \<notin> set (owners (store (demo_world carol)) pu1)
   \<and> update_info (demo_ext True) (demo_form ''pu1'' ''carol@example.com'') (demo_world carol) =
       (Inr (Render ''profile.html''
               [(''users'', TUsers [alice, bob, carol]),
                (''no_owner_queues'', TQueues [q2]),
                (''error'', TNone),
                (''messages'', TStrs [''Invalid user: carol@example.com is not an owner.''])]),
        demo_world carol)"
proof -
  have c: "carol \<notin> set (owners (store (demo_world carol)) pu1)"
    unfolding demo_owners_pu1 by (simp add: alice_def carol_def)
  have e: "email carol = ''carol@example.com''" "admin carol" by (simp_all add: carol_def)
  have q: "filter (\<lambda>q. owner_username q = None) (queues demo_db) = [q2]"
    by (simp add: demo_db_def q1_def q2_def)
  have us: "users demo_db = [alice, bob, carol]" by (simp add: demo_db_def)
  from update_info_owner_only [OF demo_logged_in demo_g_user demo_filter_pu1 c, of "demo_ext True" "''carol@example.com''"]
  show ?thesis using c e q us by (simp add: demo_store)
qed

subsection \<open>The bindings listing is open to every caller\<close>

text \<open>
  C10. The bindings listing makes no login or authorization check: its response
  depends on the queues table and the broker alone, so it is the same in any two request contexts
  (any session, any acting user or none), and it changes nothing. Without a local
  queue record the bindings are the empty list; with one they are what the broker
  returned.
\<close>

theorem bindings_listing_ignores_caller:
  "(queues (store w1) = queues (store w2) \<longrightarrow>
      fst (bindings_listing x qn w1) = fst (bindings_listing x qn w2))
   \<and> snd (bindings_listing x qn w1) = w1
   \<and> (find (\<lambda>q. name q = qn) (queues (store w1)) = None \<longrightarrow>
        fst (bindings_listing x qn w1) =
          Inr (Jsonify [(''queue_name'', JStr qn), (''bindings'', JArr [])]))
   \<and> (find (\<lambda>q. name q = qn) (queues (store w1)) \<noteq> None \<and> pm_queue_bindings x ''/'' qn = Inr b \<longrightarrow>
        fst (bindings_listing x qn w1) =
          Inr (Jsonify [(''queue_name'', JStr qn), (''bindings'', b)]))"
  by (auto simp: bindings_listing_def dest: find_name split: option.splits sum.splits)

text \<open>The instance: an anonymous caller and the admin get the same answer.\<close>

theorem bindings_listing_ignores_caller_witness:
  "fst (bindings_listing (demo_ext True) ''q/1'' anonymous_world) =
     fst (bindings_listing (demo_ext True) ''q/1'' (demo_world carol))
   \<and> fst (bindings_listing (demo_ext True) ''q/1'' anonymous_world) =
       Inr (Jsonify [(''queue_name'', JStr ''q/1''), (''bindings'', JArr [])])
   \<and> fst (bindings_listing (demo_ext True) ''nope'' anonymous_world) =
       Inr (Jsonify [(''queue_name'', JStr ''nope''), (''bindings'', JArr [])])
   \<and> session anonymous_world ''email'' = None"
proof -
  have s: "store anonymous_world = demo_db" by (simp add: anonymous_world_def)
  have f1: "find (\<lambda>q. name q = ''q/1'') (queues demo_db) \<noteq> None"
    by (simp add: demo_db_def q1_def q2_def)
  have f2: "find (\<lambda>q. name q = ''nope'') (queues demo_db) = None"
    by (simp add: demo_db_def q1_def q2_def)
  have b: "pm_queue_bindings (demo_ext True) ''/'' ''q/1'' = Inr (JArr [])"
    by (simp add: demo_ext_def)
  have e: "session anonymous_world ''email'' = None" by (simp add: anonymous_world_def)
  from bindings_listing_ignores_caller
      [of anonymous_world "demo_world carol" "demo_ext True" "''q/1''" "JArr []"]
    bindings_listing_ignores_caller
      [of anonymous_world "demo_world carol" "demo_ext True" "''nope''" "JArr []"]
  show ?thesis using s f1 f2 b e by (auto simp: demo_store)
qed

subsection \<open>What a denied caller learns about the target\<close>




subsection \<open>Replacing the owners of a pulse user\<close>













subsection \<open>Percent-encoding of path segments\<close>


























subsection \<open>Response bodies of the management API\<close>

lemma sublist_in_message:
  "sublist meth (api_error_message py meth path data received)"
  "sublist path (api_error_message py meth path data received)"
  "sublist (py_str py data) (api_error_message py meth path data received)"
  "sublist received (api_error_message py meth path data received)"
proof -
  let ?m = "api_error_message py meth path data received"
  have "?m = (''Error when calling '' @ sq) @ meth @
               ('' '' @ path @ sq @ '' with data='' @ py_str py data @ ''. Received : '' @ received)"
    by (simp add: api_error_message_def)
  then show "sublist meth ?m" unfolding sublist_def by blast
  have "?m = (''Error when calling '' @ sq @ meth @ '' '') @ path @
               (sq @ '' with data='' @ py_str py data @ ''. Received : '' @ received)"
    by (simp add: api_error_message_def)
  then show "sublist path ?m" unfolding sublist_def by blast
  have "?m = (''Error when calling '' @ sq @ meth @ '' '' @ path @ sq @ '' with data='') @
               py_str py data @ (''. Received : '' @ received)"
    by (simp add: api_error_message_def)
  then show "sublist (py_str py data) ?m" unfolding sublist_def by blast
  have "?m = (''Error when calling '' @ sq @ meth @ '' '' @ path @ sq @ '' with data='' @
               py_str py data @ ''. Received : '') @ received @ []"
    by (simp add: api_error_message_def)
  then show "sublist received ?m" unfolding sublist_def by blast
qed

text \<open>
  C7. Every call goes through \<open>_api_request\<close>. With \<open>response\<close> the answer that
  \<open>session.send\<close> returns to the request it sends: an empty body gives \<open>None\<close>; a body that is not empty and does
  not decode raises \<open>PulseManagementException\<close> with a message that contains the
  method, the path, the payload as Python prints it and the body received; a body that
  decodes is returned. A method without return value passes the exception on.
\<close>

theorem api_request_body_handling:
  assumes "send \<lparr>req_method = meth, req_url = api_url api path,
                  req_auth = (management_user api, management_password api),
                  req_data = json_dumps py data,
                  req_headers = [(''Content-type'', ''application/json'')]\<rparr> = Inr response"
  shows "(content response = [] \<longrightarrow> snd (api_request api send py path meth data) = Inr JNull)
       \<and> (content response \<noteq> [] \<and> json_loads py (content response) = None \<longrightarrow>
            (\<exists>msg. snd (api_request api send py path meth data) =
                   Inl (PulseManagementException msg)
                 \<and> snd (discard (api_request api send py path meth data)) =
                   Inl (PulseManagementException msg)
                 \<and> sublist meth msg \<and> sublist path msg
                 \<and> sublist (py_str py data) msg \<and> sublist (content response) msg))
       \<and> (content response \<noteq> [] \<and> json_loads py (content response) = Some j \<longrightarrow>
            snd (api_request api send py path meth data) = Inr j)"
  using assms
    sublist_in_message [where meth = meth and py = py and path = path and data = data
       and received = "content response"]
  by (auto simp: api_request_def Let_def discard_def)

text \<open>
  The instances: the broker answers a \<open>DELETE\<close> with an empty body and a \<open>GET\<close>
  with a page that is not JSON.
\<close>

theorem api_request_body_handling_witness:
  "snd (api_request DEFAULT_API demo_send demo_lib ''users/u1'' ''DELETE'' JNull) = Inr JNull
   \<and> snd (api_request DEFAULT_API demo_send demo_lib ''users/u1'' ''GET'' JNull) =
       Inl (PulseManagementException
              (''Error when calling '' @ sq @ ''GET users/u1'' @ sq
                 @ '' with data=None. Received : Not found''))"
proof -
  let ?rq = "\<lambda>m. \<lparr>req_method = m, req_url = api_url DEFAULT_API ''users/u1'',
                     req_auth = (management_user DEFAULT_API, management_password DEFAULT_API),
                     req_data = json_dumps demo_lib JNull,
                     req_headers = [(''Content-type'', ''application/json'')]\<rparr>"
  have d: "demo_send (?rq ''DELETE'') = Inr \<lparr>ok = True, content = []\<rparr>"
    by (simp add: demo_send_def)
  have g: "demo_send (?rq ''GET'') = Inr \<lparr>ok = True, content = ''Not found''\<rparr>"
    by (simp add: demo_send_def)
  have l: "json_loads demo_lib ''Not found'' = None" by (simp add: demo_lib_def)
  have s: "py_str demo_lib JNull = ''None''" by (simp add: demo_lib_def)
  from api_request_body_handling
    [where send = demo_send and meth = "''DELETE''" and api = DEFAULT_API
       and path = "''users/u1''" and py = demo_lib and data = JNull, OF d]
  have 1: "snd (api_request DEFAULT_API demo_send demo_lib ''users/u1'' ''DELETE'' JNull) = Inr JNull"
    by simp
  from api_request_body_handling
    [where send = demo_send and meth = "''GET''" and api = DEFAULT_API
       and path = "''users/u1''" and py = demo_lib and data = JNull, OF g]
  obtain msg where m: "snd (api_request DEFAULT_API demo_send demo_lib ''users/u1'' ''GET'' JNull) =
      Inl (PulseManagementException msg)"
    using l by auto
  then have "msg = api_error_message demo_lib ''GET'' ''users/u1'' JNull ''Not found''"
    using g l by (simp add: api_request_def Let_def)
  with m have 2: "snd (api_request DEFAULT_API demo_send demo_lib ''users/u1'' ''GET'' JNull) =
       Inl (PulseManagementException
              (''Error when calling '' @ sq @ ''GET users/u1'' @ sq
                 @ '' with data=None. Received : Not found''))"
    using s by (simp add: api_error_message_def)
  show ?thesis using 1 2 by simp
qed

subsection \<open>The broker-side existence check of credential creation\<close>



lemma demo_management_user_unreachable:
  "pm_user (with_management DEFAULT_API unreachable_send (demo_ext True)) n = Inl ConnectionError"
  by (simp add: with_management_def mgmt_user_def api_request_def Let_def unreachable_send_def)






subsection \<open>The identity provider's failures\<close>

lemma callback_profile_failure:
  assumes "json_loads (lib x)
             (content (requests_post x (''https://'' @ auth0_domain cfg @ ''/oauth/token'')
                         (json_dumps (lib x) (token_payload cfg code)))) = Some token_info"
    and "py_getitem token_info ''access_token'' = Inr access_token"
    and "resp = requests_get x (''https://'' @ auth0_domain cfg @ ''/userinfo?access_token=''
                                  @ py_str (lib x) access_token)"
    and "\<not> ok resp"
  shows "callback_handling cfg x code w =
           (Inr (Redirect ''/''),
            w\<lparr>log := log w @ [(ERROR, auth0_error_msg cfg), (ERROR, content resp)],
              flashes := flashes w @ [auth0_error_msg cfg]\<rparr>)"
    and "session (snd (callback_handling cfg x code w)) = session w"
    and "sublist (auth0_domain cfg) (auth0_error_msg cfg)"
proof -
  show r: "callback_handling cfg x code w =
           (Inr (Redirect ''/''),
            w\<lparr>log := log w @ [(ERROR, auth0_error_msg cfg), (ERROR, content resp)],
              flashes := flashes w @ [auth0_error_msg cfg]\<rparr>)"
    using assms by (simp add: callback_handling_def Let_def)
  show "session (snd (callback_handling cfg x code w)) = session w"
    unfolding r by simp
  have "auth0_error_msg cfg = ''Error verifying with Auth0 ('' @ auth0_domain cfg @ '')''"
    by (simp add: auth0_error_msg_def)
  then show "sublist (auth0_domain cfg) (auth0_error_msg cfg)"
    unfolding sublist_def by blast
qed

lemma callback_token_without_access_token:
  assumes "json_loads (lib x)
             (content (requests_post x (''https://'' @ auth0_domain cfg @ ''/oauth/token'')
                         (json_dumps (lib x) (token_payload cfg code)))) = Some (JObj kvs)"
    and "''access_token'' \<notin> fst ` set kvs"
  shows "callback_handling cfg x code w = (Inl (KeyError ''access_token''), w)"
proof -
  have "map_of kvs ''access_token'' = None" using assms(2) by (simp add: map_of_eq_None_iff)
  then show ?thesis using assms(1) by (simp add: callback_handling_def Let_def)
qed

text \<open>
  C8 on a failing token exchange. The token endpoint answers with a non-success
  status and an error object, as it does for a stale authorization code. The view
  never looks at the status: it reads \<open>access_token\<close> from the body, and the
  \<open>KeyError\<close> escapes. The session is untouched, but nothing is logged, nothing is
  flashed and no redirect to the landing page is returned.
\<close>

theorem callback_token_failure_escapes:
  "\<not> ok (requests_post (demo_ext True) ''https://auth.example.com/oauth/token''
            (json_dumps (lib (demo_ext True)) (token_payload demo_config (Some ''c0''))))
   \<and> callback_handling demo_config (demo_ext True) (Some ''c0'') anonymous_world =
       (Inl (KeyError ''access_token''), anonymous_world)
   \<and> flashes anonymous_world = [] \<and> log anonymous_world = []"
proof -
  have p: "json_loads (lib (demo_ext True))
             (content (requests_post (demo_ext True) (''https://'' @ auth0_domain demo_config @ ''/oauth/token'')
                         (json_dumps (lib (demo_ext True)) (token_payload demo_config (Some ''c0'')))))
           = Some (JObj [(''error'', JStr ''access_denied'')])"
    by (simp add: demo_ext_def demo_lib_def)
  have "callback_handling demo_config (demo_ext True) (Some ''c0'') anonymous_world =
       (Inl (KeyError ''access_token''), anonymous_world)"
    by (rule callback_token_without_access_token [OF p]) simp
  then show ?thesis by (simp add: demo_ext_def anonymous_world_def)
qed

end
